theory Spec2Isabelle
  imports Main "HOL-Library.Word"
begin

section \<open>The firmware of PWM/main.c\<close>

subsection \<open>Driver calls\<close>

text \<open>
  The drivers (SysTick delay, PWM clock, the two PWM generators, the button and timer
  interrupt sources) are external to main.c. A call to one of them is recorded, in the
  order it is issued, with the integer value of each argument.
\<close>

datatype call =
    SysTick_Delay_Init
  | PWM_Clock_Init
  | PWM1_3_Init nat nat
  | PWM0_0_Init nat nat
  | PMOD_BTN_Interrupt_Init
  | Timer_0A_Interrupt_Init
  | PWM1_3_Update_Duty_Cycle nat
  | PWM0_0_Update_Duty_Cycle nat
  | SysTick_Delay1ms nat

subsection \<open>Program state\<close>

text \<open>
  The three static variables of main.c with their C types (uint32_t, uint16_t, uint8_t),
  and the driver calls issued so far.
\<close>

record firmware =
  Timer_0A_ms_elapsed :: "32 word"
  RGB_LED_duty_cycle :: "16 word"
  increment_duty_cycle :: "8 word"
  calls :: "call list"

definition power_on :: firmware where
  "power_on =
     \<lparr>Timer_0A_ms_elapsed = 0, RGB_LED_duty_cycle = 0, increment_duty_cycle = 1,
      calls = []\<rparr>"

definition driver :: "call \<Rightarrow> firmware \<Rightarrow> firmware" where
  "driver c s = s\<lparr>calls := calls s @ [c]\<rparr>"

subsection \<open>PMOD\_BTN\_Handler\<close>

definition PMOD_BTN_Handler :: "8 word \<Rightarrow> firmware \<Rightarrow> firmware" where
  "PMOD_BTN_Handler pmod_btn_status s =
     (if pmod_btn_status = 0x04 then driver (PWM0_0_Update_Duty_Cycle 1875) s
      else if pmod_btn_status = 0x08 then driver (PWM0_0_Update_Duty_Cycle 3125) s
      else if pmod_btn_status = 0x10 then driver (PWM0_0_Update_Duty_Cycle 5000) s
      else if pmod_btn_status = 0x20 then driver (PWM0_0_Update_Duty_Cycle 7187) s
      else s)"

subsection \<open>Timer\_0A\_Periodic\_Task\<close>

text \<open>
  The addition and the subtraction on the uint16\_t duty value are computed in int and
  stored back into 16 bits, which is addition and subtraction of 16-bit words; the
  comparisons are unsigned.
\<close>

definition Timer_0A_Periodic_Task :: "firmware \<Rightarrow> firmware" where
  "Timer_0A_Periodic_Task s0 =
     (let s1 = s0\<lparr>Timer_0A_ms_elapsed := Timer_0A_ms_elapsed s0 + 1\<rparr> in
      if Timer_0A_ms_elapsed s1 mod 5 = 0 then
        let s2 =
          (if increment_duty_cycle s1 = 1 then
             let s = s1\<lparr>RGB_LED_duty_cycle := RGB_LED_duty_cycle s1 + 50\<rparr> in
             if 56250 \<le> RGB_LED_duty_cycle s then s\<lparr>RGB_LED_duty_cycle := 0\<rparr> else s
           else
             if 0 < RGB_LED_duty_cycle s1
             then s1\<lparr>RGB_LED_duty_cycle := RGB_LED_duty_cycle s1 - 50\<rparr>
             else s1\<lparr>increment_duty_cycle := 1\<rparr>)
        in driver (PWM1_3_Update_Duty_Cycle (unat (RGB_LED_duty_cycle s2))) s2
      else s1)"

subsection \<open>main\<close>

definition main_init :: "firmware \<Rightarrow> firmware" where
  "main_init s0 =
     (let s1 = driver SysTick_Delay_Init s0;
          s2 = driver PWM_Clock_Init s1;
          s3 = driver (PWM1_3_Init 62500 3125) s2;
          s4 = driver (PWM0_0_Init 62500 1875) s3;
          s5 = driver PMOD_BTN_Interrupt_Init s4;
          s6 = driver Timer_0A_Interrupt_Init s5
      in s6)"

definition main_loop_body :: "firmware \<Rightarrow> firmware" where
  "main_loop_body s0 =
     (let s1 = driver (PWM1_3_Update_Duty_Cycle 3125) s0;
          s2 = driver (SysTick_Delay1ms 2000) s1;
          s3 = driver (PWM1_3_Update_Duty_Cycle 18750) s2;
          s4 = driver (SysTick_Delay1ms 2000) s3;
          s5 = driver (PWM1_3_Update_Duty_Cycle 59375) s4;
          s6 = driver (SysTick_Delay1ms 2000) s5
      in s6)"

text \<open>
  The loop \<open>while(1)\<close> never exits. \<open>main_loop n\<close> is the state after its first
  \<open>n\<close> iterations, and \<open>main n\<close> the state of the program that has run the
  initialisation and \<open>n\<close> iterations, for every \<open>n\<close>.
\<close>

fun main_loop :: "nat \<Rightarrow> firmware \<Rightarrow> firmware" where
  "main_loop 0 s = s"
| "main_loop (Suc n) s = main_loop n (main_loop_body s)"

definition main :: "nat \<Rightarrow> firmware \<Rightarrow> firmware" where
  "main n s = main_loop n (main_init s)"

subsection \<open>Interrupts\<close>

text \<open>
  The two handlers are registered as interrupt callbacks and may run between any two
  driver calls of \<open>main\<close>. An execution of the firmware is a sequence of events, each
  one the timer interrupt, a button interrupt with its status mask, or a driver call
  issued by \<open>main\<close> (the only way \<open>main\<close> acts on the state). Every interleaving
  of \<open>main\<close> with the handlers is such a sequence.
\<close>

datatype event = Timer_0A_Interrupt | PMOD_BTN_Interrupt "8 word" | Main_Call call

fun step :: "event \<Rightarrow> firmware \<Rightarrow> firmware" where
  "step Timer_0A_Interrupt s = Timer_0A_Periodic_Task s"
| "step (PMOD_BTN_Interrupt pmod_btn_status) s = PMOD_BTN_Handler pmod_btn_status s"
| "step (Main_Call c) s = driver c s"

definition run :: "event list \<Rightarrow> firmware \<Rightarrow> firmware" where
  "run es s = fold step es s"

text \<open>
  Of the next \<open>n\<close> invocations of the periodic task, started with the counter at
  \<open>t\<close>, the number that find the incremented counter divisible by 5.
\<close>

fun qualifying_ticks :: "nat \<Rightarrow> 32 word \<Rightarrow> nat" where
  "qualifying_ticks 0 t = 0"
| "qualifying_ticks (Suc n) t =
     (if (t + 1) mod 5 = 0 then 1 else 0) + qualifying_ticks n (t + 1)"

subsection \<open>Observing the PWM channels\<close>

text \<open>
  PWM1\_3 is Module 1 PWM Generator 3 (pin PF2, the RGB LED) and PWM0\_0 is Module 0
  PWM Generator 0 (pin PB6, the servo). A driver call writes at most one channel's duty.
\<close>

datatype channel = PWM1_3 | PWM0_0

fun writes :: "call \<Rightarrow> (channel \<times> nat) option" where
  "writes (PWM1_3_Init period_constant duty_cycle) = Some (PWM1_3, duty_cycle)"
| "writes (PWM0_0_Init period_constant duty_cycle) = Some (PWM0_0, duty_cycle)"
| "writes (PWM1_3_Update_Duty_Cycle duty_cycle) = Some (PWM1_3, duty_cycle)"
| "writes (PWM0_0_Update_Duty_Cycle duty_cycle) = Some (PWM0_0, duty_cycle)"
| "writes _ = None"

definition channels_written :: "call list \<Rightarrow> channel set" where
  "channels_written cs = fst ` set (List.map_filter writes cs)"

text \<open>The calls a routine issues when it runs from state \<open>s\<close>.\<close>

definition issued :: "(firmware \<Rightarrow> firmware) \<Rightarrow> firmware \<Rightarrow> call list" where
  "issued f s = drop (length (calls s)) (calls (f s))"

text \<open>The duty a channel holds after one more call, and after a sequence of calls.\<close>

definition latch :: "channel \<Rightarrow> call \<Rightarrow> nat option \<Rightarrow> nat option" where
  "latch ch c cur =
     (case writes c of None \<Rightarrow> cur | Some (ch', d) \<Rightarrow> if ch' = ch then Some d else cur)"

definition commanded :: "channel \<Rightarrow> call list \<Rightarrow> nat option" where
  "commanded ch cs = fold (latch ch) cs None"

text \<open>
  The duty last written to a channel when \<open>t\<close> ms of the blocking delays of a call
  sequence have elapsed, the other calls taking no time.
\<close>

fun duty_at :: "channel \<Rightarrow> nat \<Rightarrow> nat option \<Rightarrow> call list \<Rightarrow> nat option" where
  "duty_at ch t cur [] = cur"
| "duty_at ch t cur (SysTick_Delay1ms ms # cs) =
     (if t < ms then cur else duty_at ch (t - ms) cur cs)"
| "duty_at ch t cur (c # cs) = duty_at ch t (latch ch c cur) cs"

subsection \<open>The invariant of the fade duty value\<close>

definition duty_ok :: "firmware \<Rightarrow> bool" where
  "duty_ok s \<longleftrightarrow>
     unat (RGB_LED_duty_cycle s) < 56250 \<and> 50 dvd unat (RGB_LED_duty_cycle s)"

section \<open>Facts about the periodic task\<close>

lemma task_idle:
  "(Timer_0A_ms_elapsed s + 1) mod 5 \<noteq> 0 \<Longrightarrow>
   Timer_0A_Periodic_Task s = s\<lparr>Timer_0A_ms_elapsed := Timer_0A_ms_elapsed s + 1\<rparr>"
  by (simp add: Timer_0A_Periodic_Task_def Let_def)

lemma task_rising:
  "(Timer_0A_ms_elapsed s + 1) mod 5 = 0 \<Longrightarrow> increment_duty_cycle s = 1 \<Longrightarrow>
   Timer_0A_Periodic_Task s =
     (let d = (if 56250 \<le> RGB_LED_duty_cycle s + 50 then 0 else RGB_LED_duty_cycle s + 50) in
      s\<lparr>Timer_0A_ms_elapsed := Timer_0A_ms_elapsed s + 1, RGB_LED_duty_cycle := d,
        calls := calls s @ [PWM1_3_Update_Duty_Cycle (unat d)]\<rparr>)"
  by (simp add: Timer_0A_Periodic_Task_def driver_def Let_def)

lemma task_falling:
  "(Timer_0A_ms_elapsed s + 1) mod 5 = 0 \<Longrightarrow> increment_duty_cycle s \<noteq> 1 \<Longrightarrow>
   Timer_0A_Periodic_Task s =
     (if 0 < RGB_LED_duty_cycle s
      then s\<lparr>Timer_0A_ms_elapsed := Timer_0A_ms_elapsed s + 1,
             RGB_LED_duty_cycle := RGB_LED_duty_cycle s - 50,
             calls := calls s @ [PWM1_3_Update_Duty_Cycle (unat (RGB_LED_duty_cycle s - 50))]\<rparr>
      else s\<lparr>Timer_0A_ms_elapsed := Timer_0A_ms_elapsed s + 1, increment_duty_cycle := 1,
             calls := calls s @ [PWM1_3_Update_Duty_Cycle (unat (RGB_LED_duty_cycle s))]\<rparr>)"
  by (simp add: Timer_0A_Periodic_Task_def driver_def Let_def)

lemma task_duty:
  "RGB_LED_duty_cycle (Timer_0A_Periodic_Task s) =
     (if (Timer_0A_ms_elapsed s + 1) mod 5 = 0 then
        if increment_duty_cycle s = 1 then
          if 56250 \<le> RGB_LED_duty_cycle s + 50 then 0 else RGB_LED_duty_cycle s + 50
        else if 0 < RGB_LED_duty_cycle s then RGB_LED_duty_cycle s - 50
        else RGB_LED_duty_cycle s
      else RGB_LED_duty_cycle s)"
  by (simp add: Timer_0A_Periodic_Task_def driver_def Let_def)

lemma task_flag:
  "increment_duty_cycle (Timer_0A_Periodic_Task s) =
     (if (Timer_0A_ms_elapsed s + 1) mod 5 = 0 \<and> increment_duty_cycle s \<noteq> 1 \<and>
         RGB_LED_duty_cycle s = 0
      then 1 else increment_duty_cycle s)"
  by (simp add: Timer_0A_Periodic_Task_def driver_def Let_def word_neq_0_conv [symmetric]
      del: word_neq_0_conv)

subsection \<open>Word arithmetic of the counter and the duty value\<close>

lemma qualifying_unat:
  fixes t :: "32 word"
  shows "t mod 5 = 0 \<longleftrightarrow> unat t mod 5 = 0"
  by (simp add: unat_eq_0 [symmetric] unat_mod del: unat_eq_0)

lemma unat_tick:
  fixes t :: "32 word"
  shows "unat t + 1 < 2 ^ 32 \<Longrightarrow> unat (t + 1) = unat t + 1"
  by (simp add: unat_word_ariths)

lemma unat_duty_up:
  fixes d :: "16 word"
  shows "unat d < 56250 \<Longrightarrow> unat (d + 50) = unat d + 50"
  by (simp add: unat_word_ariths)

lemma unat_duty_down:
  fixes d :: "16 word"
  shows "50 \<le> unat d \<Longrightarrow> unat (d - 50) = unat d - 50"
  by (simp add: unat_sub word_le_nat_alt)

lemma duty_up_ok:
  fixes d :: "16 word"
  assumes "unat d < 56250" and "50 dvd unat d"
  shows "unat (if 56250 \<le> d + 50 then 0 else d + 50) < 56250 \<and>
         50 dvd unat (if 56250 \<le> d + 50 then 0 else d + 50)"
  using assms by (simp add: word_le_nat_alt unat_duty_up)

lemma duty_down_ok:
  fixes d :: "16 word"
  assumes "unat d < 56250" and "50 dvd unat d" and "0 < d"
  shows "unat (d - 50) < 56250 \<and> 50 dvd unat (d - 50)"
proof -
  from assms(3) have "0 < unat d" by (simp add: word_less_nat_alt)
  with assms(2) have "50 \<le> unat d" by (auto elim: dvdE)
  then have "unat (d - 50) = unat d - 50" by (rule unat_duty_down)
  with assms \<open>50 \<le> unat d\<close> show ?thesis by (simp add: dvd_diff_nat)
qed

subsection \<open>Invariants along every execution\<close>

lemma duty_ok_task: "duty_ok s \<Longrightarrow> duty_ok (Timer_0A_Periodic_Task s)"
  unfolding duty_ok_def task_duty
  using duty_up_ok [of "RGB_LED_duty_cycle s"] duty_down_ok [of "RGB_LED_duty_cycle s"]
  by presburger

lemma duty_ok_step: "duty_ok s \<Longrightarrow> duty_ok (step e s)"
  by (cases e) (simp_all add: duty_ok_task, simp_all add: duty_ok_def PMOD_BTN_Handler_def driver_def)

lemma duty_ok_run: "duty_ok s \<Longrightarrow> duty_ok (run es s)"
  unfolding run_def by (induction es arbitrary: s) (simp_all add: duty_ok_step)

lemma rising_step: "increment_duty_cycle s = 1 \<Longrightarrow> increment_duty_cycle (step e s) = 1"
  by (cases e) (simp_all add: task_flag PMOD_BTN_Handler_def driver_def)

lemma rising_run: "increment_duty_cycle s = 1 \<Longrightarrow> increment_duty_cycle (run es s) = 1"
  unfolding run_def by (induction es arbitrary: s) (simp_all add: rising_step)

lemma run_ticks: "run (replicate n Timer_0A_Interrupt) s = (Timer_0A_Periodic_Task ^^ n) s"
  unfolding run_def by (induction n arbitrary: s) (simp_all add: funpow_swap1)

text \<open>
  The course of the counter, the flag and the duty value over the first \<open>n\<close> timer
  interrupts after power-on, before the 32-bit counter wraps.
\<close>

lemma sawtooth:
  "n < 2 ^ 32 \<Longrightarrow>
   unat (Timer_0A_ms_elapsed ((Timer_0A_Periodic_Task ^^ n) power_on)) = n \<and>
   increment_duty_cycle ((Timer_0A_Periodic_Task ^^ n) power_on) = 1 \<and>
   unat (RGB_LED_duty_cycle ((Timer_0A_Periodic_Task ^^ n) power_on)) = 50 * ((n div 5) mod 1125)"
proof (induction n)
  case 0
  show ?case by (simp add: power_on_def)
next
  case (Suc n)
  let ?s = "(Timer_0A_Periodic_Task ^^ n) power_on"
  from Suc have tick: "unat (Timer_0A_ms_elapsed ?s) = n"
    and flag: "increment_duty_cycle ?s = 1"
    and duty: "unat (RGB_LED_duty_cycle ?s) = 50 * ((n div 5) mod 1125)" by simp_all
  from tick Suc.prems have tick': "unat (Timer_0A_ms_elapsed ?s + 1) = Suc n"
    by (simp add: unat_tick)
  show ?case
  proof (cases "Suc n mod 5 = 0")
    case False
    then have "(Timer_0A_ms_elapsed ?s + 1) mod 5 \<noteq> 0"
      by (simp add: qualifying_unat tick')
    then have "Timer_0A_Periodic_Task ?s = ?s\<lparr>Timer_0A_ms_elapsed := Timer_0A_ms_elapsed ?s + 1\<rparr>"
      by (rule task_idle)
    moreover from False have "Suc n div 5 = n div 5" by presburger
    ultimately show ?thesis using tick' flag duty by simp
  next
    case True
    then have q: "(Timer_0A_ms_elapsed ?s + 1) mod 5 = 0"
      by (simp add: qualifying_unat tick')
    from True have d5: "Suc n div 5 = Suc (n div 5)" by presburger
    have lt: "unat (RGB_LED_duty_cycle ?s) < 56250" using duty by simp
    have up: "unat (RGB_LED_duty_cycle ?s + 50) = 50 * ((n div 5) mod 1125) + 50"
      using unat_duty_up [OF lt] duty by simp
    have "unat (if 56250 \<le> RGB_LED_duty_cycle ?s + 50 then 0 else RGB_LED_duty_cycle ?s + 50)
            = 50 * (Suc (n div 5) mod 1125)"
    proof -
      have "n div 5 mod 1125 < 1125" by simp
      then show ?thesis using up by (auto simp add: word_le_nat_alt mod_Suc)
    qed
    then show ?thesis using task_rising [OF q flag] tick' flag d5 by (simp add: Let_def)
  qed
qed

text \<open>
  Before the counter wraps, the qualifying ticks are the multiples of 5 passed.
\<close>

lemma qualifying_ticks_count:
  "unat t + n < 2 ^ 32 \<Longrightarrow> qualifying_ticks n t = (unat t + n) div 5 - unat t div 5"
proof (induction n arbitrary: t)
  case 0
  show ?case by simp
next
  case (Suc n)
  from Suc.prems have u: "unat (t + 1) = unat t + 1" by (simp add: unat_tick)
  with Suc.prems have "unat (t + 1) + n < 2 ^ 32" by simp
  from Suc.IH [OF this] u
  have ih: "qualifying_ticks n (t + 1) = (unat t + 1 + n) div 5 - (unat t + 1) div 5" by simp
  have q: "(t + 1) mod 5 = 0 \<longleftrightarrow> (unat t + 1) mod 5 = 0"
    by (simp add: qualifying_unat u)
  have mono: "(unat t + 1) div 5 \<le> (unat t + 1 + n) div 5"
    by (rule div_le_mono) simp
  have one: "(unat t + 1) div 5 = unat t div 5 + (if (unat t + 1) mod 5 = 0 then 1 else 0)"
    by presburger
  have "qualifying_ticks (Suc n) t =
          (if (unat t + 1) mod 5 = 0 then 1 else 0) + qualifying_ticks n (t + 1)"
    by (simp add: q)
  with ih mono one show ?case by simp
qed

text \<open>
  While the flag is 1 the duty value climbs by 50 per qualifying tick and falls back to 0
  at 56250, at any phase of the counter and across its wrap.
\<close>

lemma sawtooth_from:
  "increment_duty_cycle s = 1 \<Longrightarrow> duty_ok s \<Longrightarrow>
   unat (RGB_LED_duty_cycle ((Timer_0A_Periodic_Task ^^ n) s)) =
     (unat (RGB_LED_duty_cycle s) + 50 * qualifying_ticks n (Timer_0A_ms_elapsed s)) mod 56250"
proof (induction n arbitrary: s)
  case 0
  then show ?case by (simp add: duty_ok_def)
next
  case (Suc n)
  let ?s' = "Timer_0A_Periodic_Task s"
  have tick: "Timer_0A_ms_elapsed ?s' = Timer_0A_ms_elapsed s + 1"
    by (simp add: Timer_0A_Periodic_Task_def driver_def Let_def)
  have flag: "increment_duty_cycle ?s' = 1"
    using Suc.prems(1) by (simp add: task_flag)
  have ok: "duty_ok ?s'" using Suc.prems(2) by (rule duty_ok_task)
  from Suc.prems(2) have lt: "unat (RGB_LED_duty_cycle s) < 56250"
    and dvd: "50 dvd unat (RGB_LED_duty_cycle s)" by (simp_all add: duty_ok_def)
  from lt dvd have le: "unat (RGB_LED_duty_cycle s) + 50 \<le> 56250" by (auto elim!: dvdE)
  have one: "unat (RGB_LED_duty_cycle ?s') =
      (unat (RGB_LED_duty_cycle s) + 50 * (if (Timer_0A_ms_elapsed s + 1) mod 5 = 0 then 1 else 0))
        mod 56250"
    using Suc.prems(1) lt le unat_duty_up [OF lt]
    by (auto simp add: task_duty word_le_nat_alt)
  have "(Timer_0A_Periodic_Task ^^ Suc n) s = (Timer_0A_Periodic_Task ^^ n) ?s'"
    by (simp add: funpow_swap1)
  then have "unat (RGB_LED_duty_cycle ((Timer_0A_Periodic_Task ^^ Suc n) s)) =
      (unat (RGB_LED_duty_cycle ?s') + 50 * qualifying_ticks n (Timer_0A_ms_elapsed s + 1)) mod 56250"
    using Suc.IH [OF flag ok] tick by simp
  also have "\<dots> = (unat (RGB_LED_duty_cycle s) +
      50 * (if (Timer_0A_ms_elapsed s + 1) mod 5 = 0 then 1 else 0) +
      50 * qualifying_ticks n (Timer_0A_ms_elapsed s + 1)) mod 56250"
    unfolding one by (rule mod_add_left_eq)
  finally show ?case by (simp add: algebra_simps)
qed

subsection \<open>The falling phase\<close>

lemma falling_step:
  assumes "f \<noteq> 1" and "j + b \<le> 4"
    and "(RGB_LED_duty_cycle s, increment_duty_cycle s) =
           [(150, f), (100, f), (50, f), (0, f), (0, 1)] ! j"
    and "b = (if (Timer_0A_ms_elapsed s + 1) mod 5 = 0 then 1 else 0)"
  shows "(RGB_LED_duty_cycle (Timer_0A_Periodic_Task s),
          increment_duty_cycle (Timer_0A_Periodic_Task s)) =
           [(150, f), (100, f), (50, f), (0, f), (0, 1)] ! (j + b)"
proof -
  from assms(2) consider "j = 0" | "j = 1" | "j = 2" | "j = 3" | "j = 4" by linarith
  then show ?thesis
  proof cases
    case 1 with assms show ?thesis by (simp add: task_duty task_flag)
  next
    case 2 with assms show ?thesis by (simp add: task_duty task_flag)
  next
    case 3 with assms show ?thesis by (simp add: task_duty task_flag)
  next
    case 4 with assms show ?thesis by (simp add: task_duty task_flag)
  next
    case 5 with assms show ?thesis by (simp add: task_duty task_flag split: if_splits)
  qed
qed

lemma falling_course:
  assumes "f \<noteq> 1"
  shows "(RGB_LED_duty_cycle s, increment_duty_cycle s) =
           [(150, f), (100, f), (50, f), (0, f), (0, 1)] ! j \<Longrightarrow>
         j + qualifying_ticks n (Timer_0A_ms_elapsed s) \<le> 4 \<Longrightarrow>
         (RGB_LED_duty_cycle ((Timer_0A_Periodic_Task ^^ n) s),
          increment_duty_cycle ((Timer_0A_Periodic_Task ^^ n) s)) =
           [(150, f), (100, f), (50, f), (0, f), (0, 1)]
             ! (j + qualifying_ticks n (Timer_0A_ms_elapsed s))"
proof (induction n arbitrary: s j)
  case 0
  then show ?case by simp
next
  case (Suc n)
  define b :: nat where "b = (if (Timer_0A_ms_elapsed s + 1) mod 5 = 0 then 1 else 0)"
  have tick: "Timer_0A_ms_elapsed (Timer_0A_Periodic_Task s) = Timer_0A_ms_elapsed s + 1"
    by (simp add: Timer_0A_Periodic_Task_def driver_def Let_def)
  have q: "qualifying_ticks (Suc n) (Timer_0A_ms_elapsed s) =
             b + qualifying_ticks n (Timer_0A_ms_elapsed (Timer_0A_Periodic_Task s))"
    by (simp add: b_def tick)
  from Suc.prems(2) q have le: "j + b \<le> 4"
    and le': "(j + b) + qualifying_ticks n (Timer_0A_ms_elapsed (Timer_0A_Periodic_Task s)) \<le> 4"
    by simp_all
  have one: "(RGB_LED_duty_cycle (Timer_0A_Periodic_Task s),
              increment_duty_cycle (Timer_0A_Periodic_Task s)) =
               [(150, f), (100, f), (50, f), (0, f), (0, 1)] ! (j + b)"
    using assms le Suc.prems(1) b_def by (rule falling_step)
  have "(Timer_0A_Periodic_Task ^^ Suc n) s = (Timer_0A_Periodic_Task ^^ n) (Timer_0A_Periodic_Task s)"
    by (simp add: funpow_swap1)
  with Suc.IH [OF one le'] show ?case
    by (simp only: q add.assoc)
qed

subsection \<open>The calls of each routine\<close>

lemma calls_main_loop_body:
  "calls (main_loop_body s) = calls s @
     [PWM1_3_Update_Duty_Cycle 3125, SysTick_Delay1ms 2000,
      PWM1_3_Update_Duty_Cycle 18750, SysTick_Delay1ms 2000,
      PWM1_3_Update_Duty_Cycle 59375, SysTick_Delay1ms 2000]"
  by (simp add: main_loop_body_def driver_def Let_def)

lemma calls_main_loop:
  "calls (main_loop n s) = calls s @ concat (replicate n
     [PWM1_3_Update_Duty_Cycle 3125, SysTick_Delay1ms 2000,
      PWM1_3_Update_Duty_Cycle 18750, SysTick_Delay1ms 2000,
      PWM1_3_Update_Duty_Cycle 59375, SysTick_Delay1ms 2000])"
  by (induction n arbitrary: s) (simp_all add: calls_main_loop_body)

lemma calls_main_init:
  "calls (main_init s) = calls s @
     [SysTick_Delay_Init, PWM_Clock_Init, PWM1_3_Init 62500 3125, PWM0_0_Init 62500 1875,
      PMOD_BTN_Interrupt_Init, Timer_0A_Interrupt_Init]"
  by (simp add: main_init_def driver_def Let_def)

lemma issued_main_loop_body:
  "issued main_loop_body s =
     [PWM1_3_Update_Duty_Cycle 3125, SysTick_Delay1ms 2000,
      PWM1_3_Update_Duty_Cycle 18750, SysTick_Delay1ms 2000,
      PWM1_3_Update_Duty_Cycle 59375, SysTick_Delay1ms 2000]"
  by (simp add: issued_def main_loop_body_def driver_def Let_def)

lemma issued_handler:
  "issued (PMOD_BTN_Handler m) s =
     (if m = 0x04 then [PWM0_0_Update_Duty_Cycle 1875]
      else if m = 0x08 then [PWM0_0_Update_Duty_Cycle 3125]
      else if m = 0x10 then [PWM0_0_Update_Duty_Cycle 5000]
      else if m = 0x20 then [PWM0_0_Update_Duty_Cycle 7187]
      else [])"
  by (simp add: issued_def PMOD_BTN_Handler_def driver_def)

lemma issued_task:
  "issued Timer_0A_Periodic_Task s =
     (if (Timer_0A_ms_elapsed s + 1) mod 5 = 0
      then [PWM1_3_Update_Duty_Cycle (unat (RGB_LED_duty_cycle (Timer_0A_Periodic_Task s)))]
      else [])"
  by (simp add: issued_def Timer_0A_Periodic_Task_def driver_def Let_def)

text \<open>
  The updates issued by \<open>n\<close> invocations of the periodic task are as many as its
  qualifying ticks.
\<close>

lemma calls_ticks:
  "length (calls ((Timer_0A_Periodic_Task ^^ n) s)) =
     length (calls s) + qualifying_ticks n (Timer_0A_ms_elapsed s)"
proof (induction n arbitrary: s)
  case 0
  show ?case by simp
next
  case (Suc n)
  have tick: "Timer_0A_ms_elapsed (Timer_0A_Periodic_Task s) = Timer_0A_ms_elapsed s + 1"
    by (simp add: Timer_0A_Periodic_Task_def driver_def Let_def)
  have one: "length (calls (Timer_0A_Periodic_Task s)) =
      length (calls s) + (if (Timer_0A_ms_elapsed s + 1) mod 5 = 0 then 1 else 0)"
    by (simp add: Timer_0A_Periodic_Task_def driver_def Let_def)
  have "(Timer_0A_Periodic_Task ^^ Suc n) s =
      (Timer_0A_Periodic_Task ^^ n) (Timer_0A_Periodic_Task s)"
    by (simp add: funpow_swap1)
  then show ?case
    using Suc.IH [of "Timer_0A_Periodic_Task s"] by (simp add: tick one)
qed

lemma issued_ticks:
  "length (issued (Timer_0A_Periodic_Task ^^ n) s) =
     qualifying_ticks n (Timer_0A_ms_elapsed s)"
  by (simp add: issued_def calls_ticks)

subsection \<open>The timeline of the main loop\<close>

lemma duty_at_cycles:
  "t < 6000 * n \<Longrightarrow>
   duty_at PWM1_3 t cur (concat (replicate n
     [PWM1_3_Update_Duty_Cycle 3125, SysTick_Delay1ms 2000,
      PWM1_3_Update_Duty_Cycle 18750, SysTick_Delay1ms 2000,
      PWM1_3_Update_Duty_Cycle 59375, SysTick_Delay1ms 2000])) =
   Some (if t mod 6000 < 2000 then 3125 else if t mod 6000 < 4000 then 18750 else 59375)"
proof (induction n arbitrary: t cur)
  case 0
  then show ?case by simp
next
  case (Suc n)
  show ?case
  proof (cases "t < 6000")
    case True
    then show ?thesis by (auto simp add: latch_def)
  next
    case False
    with Suc.prems have "t - 6000 < 6000 * n" by simp
    moreover from False have "t mod 6000 = (t - 6000) mod 6000"
      by (simp add: le_mod_geq)
    ultimately show ?thesis
      using Suc.IH [of "t - 6000" "Some 59375"] False by (auto simp add: latch_def)
  qed
qed

section \<open>The button handler\<close>

text \<open>
  C4. The button handler maps the status mask 0x04 to the servo duty update 1875, 0x08
  to 3125, 0x10 to 5000 and 0x20 to 7187: in each case it issues exactly that one call
  to PWM0\_0\_Update\_Duty\_Cycle and changes nothing else.
\<close>

theorem PMOD_BTN_Handler_presets:
  "PMOD_BTN_Handler 0x04 s = s\<lparr>calls := calls s @ [PWM0_0_Update_Duty_Cycle 1875]\<rparr> \<and>
   PMOD_BTN_Handler 0x08 s = s\<lparr>calls := calls s @ [PWM0_0_Update_Duty_Cycle 3125]\<rparr> \<and>
   PMOD_BTN_Handler 0x10 s = s\<lparr>calls := calls s @ [PWM0_0_Update_Duty_Cycle 5000]\<rparr> \<and>
   PMOD_BTN_Handler 0x20 s = s\<lparr>calls := calls s @ [PWM0_0_Update_Duty_Cycle 7187]\<rparr>"
  by (simp add: PMOD_BTN_Handler_def driver_def)

text \<open>
  C9. For every status mask other than 0x04, 0x08, 0x10 and 0x20 the button handler is
  a no-op: it issues no driver call and returns the program state as it was.
\<close>

theorem PMOD_BTN_Handler_default:
  "pmod_btn_status \<notin> {0x04, 0x08, 0x10, 0x20} \<Longrightarrow> PMOD_BTN_Handler pmod_btn_status s = s"
  by (simp add: PMOD_BTN_Handler_def)

theorem PMOD_BTN_Handler_default_witness:
  "(0x00 :: 8 word) \<notin> {0x04, 0x08, 0x10, 0x20} \<and> PMOD_BTN_Handler 0x00 power_on = power_on \<and>
   (0x0C :: 8 word) \<notin> {0x04, 0x08, 0x10, 0x20} \<and> PMOD_BTN_Handler 0x0C power_on = power_on \<and>
   (0xFF :: 8 word) \<notin> {0x04, 0x08, 0x10, 0x20} \<and> PMOD_BTN_Handler 0xFF power_on = power_on"
  using PMOD_BTN_Handler_default [of "0x00" power_on]
    PMOD_BTN_Handler_default [of "0x0C" power_on]
    PMOD_BTN_Handler_default [of "0xFF" power_on]
  by simp

section \<open>The fade task\<close>

text \<open>
  C6, as stated, fails where the 32-bit counter wraps. The counter values 0xFFFFFFFF and
  0 are both divisible by 5, so the invocation that takes the counter to 0xFFFFFFFF and
  the very next one both act: of the five invocations that follow the 4294967293rd
  after power-on, two change the duty value and push it, and only three leave it alone.
\<close>

theorem two_qualifying_ticks_at_wrap:
  "Timer_0A_ms_elapsed ((Timer_0A_Periodic_Task ^^ 4294967293) power_on) = 0xFFFFFFFD \<and>
   length (issued (Timer_0A_Periodic_Task ^^ 5)
     ((Timer_0A_Periodic_Task ^^ 4294967293) power_on)) = 2 \<and>
   Timer_0A_ms_elapsed ((Timer_0A_Periodic_Task ^^ 4294967295) power_on) = 0xFFFFFFFF \<and>
   Timer_0A_ms_elapsed ((Timer_0A_Periodic_Task ^^ 4294967296) power_on) = 0 \<and>
   unat (RGB_LED_duty_cycle ((Timer_0A_Periodic_Task ^^ 4294967294) power_on)) = 41650 \<and>
   unat (RGB_LED_duty_cycle ((Timer_0A_Periodic_Task ^^ 4294967295) power_on)) = 41700 \<and>
   unat (RGB_LED_duty_cycle ((Timer_0A_Periodic_Task ^^ 4294967296) power_on)) = 41750"
proof -
  let ?a = "(Timer_0A_Periodic_Task ^^ 4294967293) power_on"
  let ?b = "(Timer_0A_Periodic_Task ^^ 4294967294) power_on"
  let ?c = "(Timer_0A_Periodic_Task ^^ 4294967295) power_on"
  have a: "(4294967293::nat) < 2 ^ 32" and b: "(4294967294::nat) < 2 ^ 32"
    and c: "(4294967295::nat) < 2 ^ 32" by simp_all
  have "unat (Timer_0A_ms_elapsed ?a) = unat (0xFFFFFFFD :: 32 word)"
    using sawtooth [OF a] by simp
  then have ta: "Timer_0A_ms_elapsed ?a = 0xFFFFFFFD"
    by (simp only: word_unat_eq_iff [symmetric])
  have q: "qualifying_ticks 5 (0xFFFFFFFD :: 32 word) = 2" by code_simp
  have pushes: "length (issued (Timer_0A_Periodic_Task ^^ 5) ?a) = 2"
    by (simp only: issued_ticks ta q)
  have "unat (Timer_0A_ms_elapsed ?c) = unat (0xFFFFFFFF :: 32 word)"
    using sawtooth [OF c] by simp
  then have tc: "Timer_0A_ms_elapsed ?c = 0xFFFFFFFF"
    by (simp only: word_unat_eq_iff [symmetric])
  have "unat (RGB_LED_duty_cycle ?c) = unat (41700 :: 16 word)"
    using sawtooth [OF c] by simp
  then have dc: "RGB_LED_duty_cycle ?c = 41700"
    by (simp only: word_unat_eq_iff [symmetric])
  have fc: "increment_duty_cycle ?c = 1" using sawtooth [OF c] by simp
  have "(4294967296::nat) = Suc 4294967295" by simp
  then have d: "(Timer_0A_Periodic_Task ^^ 4294967296) power_on = Timer_0A_Periodic_Task ?c"
    by (simp only: funpow.simps o_apply)
  have td: "Timer_0A_ms_elapsed (Timer_0A_Periodic_Task ?c) = 0"
    by (simp add: Timer_0A_Periodic_Task_def driver_def Let_def tc)
  have dd: "RGB_LED_duty_cycle (Timer_0A_Periodic_Task ?c) = 41750"
    by (simp add: task_duty tc dc fc)
  show ?thesis
    unfolding d td dd using ta pushes tc sawtooth [OF b] sawtooth [OF c] by simp
qed

text \<open>
  C6, amended. One invocation of the fade task increments the tick counter by exactly
  1 modulo 2^32 (from 0xFFFFFFFF it wraps to 0), whatever the state. When the
  incremented counter is divisible by 5 it issues one update of the LED channel PWM1\_3
  carrying the duty value it leaves behind, also when that value did not change.
  Otherwise it changes nothing but the counter: the duty value, the direction flag and
  the calls issued stay as they were. As long as the counter does not wrap, \<open>n\<close>
  invocations started at counter \<open>t\<close> issue one update for each multiple of 5 in
  \<open>t + 1, ..., t + n\<close>, so exactly one of every 5 consecutive invocations acts and the
  other 4 leave the duty value, the flag and the PWM output unchanged.
\<close>

theorem fade_task_cadence:
  "Timer_0A_ms_elapsed (Timer_0A_Periodic_Task s) = Timer_0A_ms_elapsed s + 1 \<and>
   unat (Timer_0A_ms_elapsed (Timer_0A_Periodic_Task s)) =
     (if unat (Timer_0A_ms_elapsed s) = 2 ^ 32 - 1 then 0
      else unat (Timer_0A_ms_elapsed s) + 1) \<and>
   (if Timer_0A_ms_elapsed (Timer_0A_Periodic_Task s) mod 5 = 0
    then calls (Timer_0A_Periodic_Task s) =
           calls s @
           [PWM1_3_Update_Duty_Cycle (unat (RGB_LED_duty_cycle (Timer_0A_Periodic_Task s)))]
    else Timer_0A_Periodic_Task s = s\<lparr>Timer_0A_ms_elapsed := Timer_0A_ms_elapsed s + 1\<rparr>) \<and>
   (unat (Timer_0A_ms_elapsed s) + n < 2 ^ 32 \<longrightarrow>
      length (issued (Timer_0A_Periodic_Task ^^ n) s) =
        (unat (Timer_0A_ms_elapsed s) + n) div 5 - unat (Timer_0A_ms_elapsed s) div 5) \<and>
   (unat (Timer_0A_ms_elapsed s) + 5 < 2 ^ 32 \<longrightarrow>
      length (issued (Timer_0A_Periodic_Task ^^ 5) s) = 1)"
proof (intro conjI impI)
  show "Timer_0A_ms_elapsed (Timer_0A_Periodic_Task s) = Timer_0A_ms_elapsed s + 1"
    by (simp add: Timer_0A_Periodic_Task_def driver_def Let_def)
  then show "unat (Timer_0A_ms_elapsed (Timer_0A_Periodic_Task s)) =
     (if unat (Timer_0A_ms_elapsed s) = 2 ^ 32 - 1 then 0
      else unat (Timer_0A_ms_elapsed s) + 1)"
    using unsigned_less [of "Timer_0A_ms_elapsed s", where ?'a = nat]
    by (auto simp add: unat_word_ariths)
  show "if Timer_0A_ms_elapsed (Timer_0A_Periodic_Task s) mod 5 = 0
    then calls (Timer_0A_Periodic_Task s) =
           calls s @
           [PWM1_3_Update_Duty_Cycle (unat (RGB_LED_duty_cycle (Timer_0A_Periodic_Task s)))]
    else Timer_0A_Periodic_Task s = s\<lparr>Timer_0A_ms_elapsed := Timer_0A_ms_elapsed s + 1\<rparr>"
    by (simp add: Timer_0A_Periodic_Task_def driver_def Let_def)
next
  assume "unat (Timer_0A_ms_elapsed s) + n < 2 ^ 32"
  then show "length (issued (Timer_0A_Periodic_Task ^^ n) s) =
        (unat (Timer_0A_ms_elapsed s) + n) div 5 - unat (Timer_0A_ms_elapsed s) div 5"
    by (simp only: issued_ticks qualifying_ticks_count)
next
  assume "unat (Timer_0A_ms_elapsed s) + 5 < 2 ^ 32"
  then have "qualifying_ticks 5 (Timer_0A_ms_elapsed s) =
      (unat (Timer_0A_ms_elapsed s) + 5) div 5 - unat (Timer_0A_ms_elapsed s) div 5"
    by (rule qualifying_ticks_count)
  then show "length (issued (Timer_0A_Periodic_Task ^^ 5) s) = 1"
    by (simp add: issued_ticks)
qed

theorem fade_task_cadence_witness:
  "Timer_0A_Periodic_Task
     \<lparr>Timer_0A_ms_elapsed = 4, RGB_LED_duty_cycle = 0, increment_duty_cycle = 0, calls = []\<rparr> =
     \<lparr>Timer_0A_ms_elapsed = 5, RGB_LED_duty_cycle = 0, increment_duty_cycle = 1,
      calls = [PWM1_3_Update_Duty_Cycle 0]\<rparr> \<and>
   Timer_0A_Periodic_Task
     \<lparr>Timer_0A_ms_elapsed = 5, RGB_LED_duty_cycle = 50, increment_duty_cycle = 1, calls = []\<rparr> =
     \<lparr>Timer_0A_ms_elapsed = 6, RGB_LED_duty_cycle = 50, increment_duty_cycle = 1, calls = []\<rparr> \<and>
   unat (Timer_0A_ms_elapsed power_on) + 5 < 2 ^ 32 \<and>
   length (issued (Timer_0A_Periodic_Task ^^ 5) power_on) = 1 \<and>
   unat (Timer_0A_ms_elapsed power_on) + 5624 < 2 ^ 32 \<and>
   length (issued (Timer_0A_Periodic_Task ^^ 5624) power_on) = 1124"
  using fade_task_cadence
      [of "\<lparr>Timer_0A_ms_elapsed = 4, RGB_LED_duty_cycle = 0, increment_duty_cycle = 0, calls = []\<rparr>" 0]
    fade_task_cadence
      [of "\<lparr>Timer_0A_ms_elapsed = 5, RGB_LED_duty_cycle = 50, increment_duty_cycle = 1, calls = []\<rparr>" 0]
    fade_task_cadence [of power_on 5624]
  by (simp add: task_duty task_flag Timer_0A_Periodic_Task_def driver_def Let_def power_on_def)

text \<open>
  C2. In every state reached from the initial state (duty 0, direction RISING), an
  invocation of the fade task that finds the incremented counter divisible by 5 adds
  exactly 50 to the duty value, unless the sum is at least 56250: then the duty value
  becomes 0. The direction flag stays 1 either way.
\<close>

theorem rising_step_from_power_on:
  "(let s = run es power_on; s' = Timer_0A_Periodic_Task s in
    if Timer_0A_ms_elapsed s' mod 5 = 0
    then increment_duty_cycle s' = 1 \<and>
         (if 56250 \<le> unat (RGB_LED_duty_cycle s) + 50
          then RGB_LED_duty_cycle s' = 0
          else unat (RGB_LED_duty_cycle s') = unat (RGB_LED_duty_cycle s) + 50)
    else increment_duty_cycle s' = 1 \<and> RGB_LED_duty_cycle s' = RGB_LED_duty_cycle s)"
proof -
  let ?s = "run es power_on"
  have flag: "increment_duty_cycle ?s = 1"
    by (rule rising_run) (simp add: power_on_def)
  have "duty_ok power_on" by (simp add: duty_ok_def power_on_def)
  then have "duty_ok ?s" by (rule duty_ok_run)
  then have lt: "unat (RGB_LED_duty_cycle ?s) < 56250" by (simp add: duty_ok_def)
  have tick: "Timer_0A_ms_elapsed (Timer_0A_Periodic_Task ?s) = Timer_0A_ms_elapsed ?s + 1"
    by (simp add: Timer_0A_Periodic_Task_def driver_def Let_def)
  show ?thesis
    unfolding Let_def tick task_duty task_flag
    using flag unat_duty_up [OF lt] by (simp add: word_le_nat_alt)
qed

theorem rising_step_reset_witness:
  "(let s = run (replicate 5624 Timer_0A_Interrupt) power_on; s' = Timer_0A_Periodic_Task s in
     Timer_0A_ms_elapsed s' mod 5 = 0 \<and> unat (RGB_LED_duty_cycle s) = 56200 \<and>
     increment_duty_cycle s' = 1 \<and> RGB_LED_duty_cycle s' = 0)"
proof -
  let ?s = "run (replicate 5624 Timer_0A_Interrupt) power_on"
  have "(5624::nat) < 2 ^ 32" by simp
  from sawtooth [OF this]
  have tick: "unat (Timer_0A_ms_elapsed ?s) = 5624"
    and duty: "unat (RGB_LED_duty_cycle ?s) = 56200"
    by (simp_all add: run_ticks)
  have tick': "Timer_0A_ms_elapsed (Timer_0A_Periodic_Task ?s) = Timer_0A_ms_elapsed ?s + 1"
    by (simp add: Timer_0A_Periodic_Task_def driver_def Let_def)
  have q: "Timer_0A_ms_elapsed (Timer_0A_Periodic_Task ?s) mod 5 = 0"
    unfolding tick' by (simp add: qualifying_unat unat_tick tick)
  show ?thesis
    using rising_step_from_power_on [of "replicate 5624 Timer_0A_Interrupt"] q duty
    by (simp add: Let_def)
qed

text \<open>
  C8. In every state reached from the initial state the fade duty value is below the
  ceiling 56250, hence within the PWM period 62500, and is a multiple of the step 50.
\<close>

theorem fade_duty_invariant:
  "unat (RGB_LED_duty_cycle (run es power_on)) < 56250 \<and>
   unat (RGB_LED_duty_cycle (run es power_on)) \<le> 62500 \<and>
   50 dvd unat (RGB_LED_duty_cycle (run es power_on))"
proof -
  have "duty_ok power_on" by (simp add: duty_ok_def power_on_def)
  then have "duty_ok (run es power_on)" by (rule duty_ok_run)
  then show ?thesis by (simp add: duty_ok_def)
qed

text \<open>
  C10. From the initial state (flag 1, duty 0, counter 0) the direction flag is 1 in
  every state reached by any sequence of timer interrupts, button interrupts and driver
  calls of main. No step stores any other value than 1 into the flag, so the decrement
  branch of the fade task is never entered. The fade output is a sawtooth: after any
  number of timer interrupts the duty value is 50 times the number of qualifying ticks
  so far, modulo 56250.
\<close>

theorem always_rising:
  "increment_duty_cycle (run es power_on) = 1 \<and>
   (increment_duty_cycle (step e s) = increment_duty_cycle s \<or>
    increment_duty_cycle (step e s) = 1) \<and>
   unat (RGB_LED_duty_cycle ((Timer_0A_Periodic_Task ^^ n) power_on)) =
     (50 * qualifying_ticks n 0) mod 56250"
proof (intro conjI)
  show "increment_duty_cycle (run es power_on) = 1"
    by (rule rising_run) (simp add: power_on_def)
  show "increment_duty_cycle (step e s) = increment_duty_cycle s \<or>
    increment_duty_cycle (step e s) = 1"
    by (cases e) (simp_all add: task_flag PMOD_BTN_Handler_def driver_def)
  have "increment_duty_cycle power_on = 1" and "duty_ok power_on"
    by (simp_all add: power_on_def duty_ok_def)
  from sawtooth_from [OF this, of n]
  show "unat (RGB_LED_duty_cycle ((Timer_0A_Periodic_Task ^^ n) power_on)) =
     (50 * qualifying_ticks n 0) mod 56250"
    by (simp add: power_on_def)
qed

text \<open>
  C1, as stated, fails. After 5624 timer interrupts from power-on the direction is
  RISING and the duty value is 56200. The next interrupt is a qualifying one, the duty
  value reaches the ceiling 56250 and is reset to 0, and the direction is still RISING.
\<close>

theorem no_falling_at_ceiling:
  "increment_duty_cycle ((Timer_0A_Periodic_Task ^^ 5624) power_on) = 1 \<and>
   unat (RGB_LED_duty_cycle ((Timer_0A_Periodic_Task ^^ 5624) power_on)) + 50 = 56250 \<and>
   Timer_0A_ms_elapsed ((Timer_0A_Periodic_Task ^^ 5625) power_on) mod 5 = 0 \<and>
   RGB_LED_duty_cycle ((Timer_0A_Periodic_Task ^^ 5625) power_on) = 0 \<and>
   increment_duty_cycle ((Timer_0A_Periodic_Task ^^ 5625) power_on) = 1"
proof -
  have a: "(5624::nat) < 2 ^ 32" and b: "(5625::nat) < 2 ^ 32" by simp_all
  from sawtooth [OF b]
  have "unat (Timer_0A_ms_elapsed ((Timer_0A_Periodic_Task ^^ 5625) power_on)) mod 5 = 0"
    by simp
  then have "Timer_0A_ms_elapsed ((Timer_0A_Periodic_Task ^^ 5625) power_on) mod 5 = 0"
    by (simp only: qualifying_unat)
  moreover from sawtooth [OF b]
  have "unat (RGB_LED_duty_cycle ((Timer_0A_Periodic_Task ^^ 5625) power_on)) = 0"
    by simp
  then have "RGB_LED_duty_cycle ((Timer_0A_Periodic_Task ^^ 5625) power_on) = 0"
    by (simp only: unat_eq_0)
  ultimately show ?thesis
    using sawtooth [OF a] sawtooth [OF b] by simp
qed

text \<open>
  C1, amended. The fade controller starts in RISING (flag 1) and the fade task never
  leaves RISING: at the ceiling the duty value is reset and the flag stays. The only
  change of the flag the task makes is from a value other than 1 to 1, on a qualifying
  tick that finds the duty value at the floor 0; the duty value stays 0 on that tick.
\<close>

theorem fade_flag_transitions:
  "increment_duty_cycle power_on = 1 \<and>
   (increment_duty_cycle s = 1 \<longrightarrow> increment_duty_cycle (Timer_0A_Periodic_Task s) = 1) \<and>
   (increment_duty_cycle (Timer_0A_Periodic_Task s) \<noteq> increment_duty_cycle s \<longleftrightarrow>
      Timer_0A_ms_elapsed (Timer_0A_Periodic_Task s) mod 5 = 0 \<and>
      increment_duty_cycle s \<noteq> 1 \<and> RGB_LED_duty_cycle s = 0) \<and>
   (increment_duty_cycle (Timer_0A_Periodic_Task s) \<noteq> increment_duty_cycle s \<longrightarrow>
      increment_duty_cycle (Timer_0A_Periodic_Task s) = 1 \<and>
      RGB_LED_duty_cycle (Timer_0A_Periodic_Task s) = 0)"
proof -
  have tick: "Timer_0A_ms_elapsed (Timer_0A_Periodic_Task s) = Timer_0A_ms_elapsed s + 1"
    by (simp add: Timer_0A_Periodic_Task_def driver_def Let_def)
  show ?thesis
    unfolding tick task_flag task_duty by (auto simp add: power_on_def)
qed

theorem fade_flag_transitions_witness:
  "increment_duty_cycle power_on = 1 \<and>
   increment_duty_cycle (Timer_0A_Periodic_Task power_on) = 1 \<and>
   increment_duty_cycle
     (Timer_0A_Periodic_Task
       \<lparr>Timer_0A_ms_elapsed = 4, RGB_LED_duty_cycle = 0, increment_duty_cycle = 0, calls = []\<rparr>)
     \<noteq> 0 \<and>
   increment_duty_cycle
     (Timer_0A_Periodic_Task
       \<lparr>Timer_0A_ms_elapsed = 4, RGB_LED_duty_cycle = 0, increment_duty_cycle = 0, calls = []\<rparr>)
     = 1 \<and>
   RGB_LED_duty_cycle
     (Timer_0A_Periodic_Task
       \<lparr>Timer_0A_ms_elapsed = 4, RGB_LED_duty_cycle = 0, increment_duty_cycle = 0, calls = []\<rparr>)
     = 0"
  using fade_flag_transitions [of power_on]
    fade_flag_transitions
      [of "\<lparr>Timer_0A_ms_elapsed = 4, RGB_LED_duty_cycle = 0, increment_duty_cycle = 0, calls = []\<rparr>"]
  by (simp add: task_flag)

text \<open>
  C5. Start the fade task with the duty value 150 and a flag \<open>f\<close> other than 1
  (FALLING). After \<open>k\<close> qualifying ticks the duty value and the flag are the
  \<open>k\<close>-th entry of: (150, f), (100, f), (50, f), (0, f), (0, 1). Each qualifying tick
  takes 50 off the duty value down to 0; the one after that sets the flag to 1 and
  leaves the duty value 0. The 16-bit value never wraps below 0.
\<close>

theorem falling_from_150:
  assumes "RGB_LED_duty_cycle s = 150" and "increment_duty_cycle s = f" and "f \<noteq> 1"
    and "qualifying_ticks n (Timer_0A_ms_elapsed s) = k" and "k \<le> 4"
  shows "(RGB_LED_duty_cycle ((Timer_0A_Periodic_Task ^^ n) s),
          increment_duty_cycle ((Timer_0A_Periodic_Task ^^ n) s)) =
           [(150, f), (100, f), (50, f), (0, f), (0, 1)] ! k"
  using falling_course [of f s 0 n] assms by simp

theorem falling_from_150_witness:
  "qualifying_ticks 5 0 = 1 \<and> qualifying_ticks 10 0 = 2 \<and>
   qualifying_ticks 15 0 = 3 \<and> qualifying_ticks 20 0 = 4 \<and>
   (RGB_LED_duty_cycle ((Timer_0A_Periodic_Task ^^ 5)
      \<lparr>Timer_0A_ms_elapsed = 0, RGB_LED_duty_cycle = 150, increment_duty_cycle = 0, calls = []\<rparr>),
    increment_duty_cycle ((Timer_0A_Periodic_Task ^^ 5)
      \<lparr>Timer_0A_ms_elapsed = 0, RGB_LED_duty_cycle = 150, increment_duty_cycle = 0, calls = []\<rparr>))
     = (100, 0) \<and>
   (RGB_LED_duty_cycle ((Timer_0A_Periodic_Task ^^ 10)
      \<lparr>Timer_0A_ms_elapsed = 0, RGB_LED_duty_cycle = 150, increment_duty_cycle = 0, calls = []\<rparr>),
    increment_duty_cycle ((Timer_0A_Periodic_Task ^^ 10)
      \<lparr>Timer_0A_ms_elapsed = 0, RGB_LED_duty_cycle = 150, increment_duty_cycle = 0, calls = []\<rparr>))
     = (50, 0) \<and>
   (RGB_LED_duty_cycle ((Timer_0A_Periodic_Task ^^ 15)
      \<lparr>Timer_0A_ms_elapsed = 0, RGB_LED_duty_cycle = 150, increment_duty_cycle = 0, calls = []\<rparr>),
    increment_duty_cycle ((Timer_0A_Periodic_Task ^^ 15)
      \<lparr>Timer_0A_ms_elapsed = 0, RGB_LED_duty_cycle = 150, increment_duty_cycle = 0, calls = []\<rparr>))
     = (0, 0) \<and>
   (RGB_LED_duty_cycle ((Timer_0A_Periodic_Task ^^ 20)
      \<lparr>Timer_0A_ms_elapsed = 0, RGB_LED_duty_cycle = 150, increment_duty_cycle = 0, calls = []\<rparr>),
    increment_duty_cycle ((Timer_0A_Periodic_Task ^^ 20)
      \<lparr>Timer_0A_ms_elapsed = 0, RGB_LED_duty_cycle = 150, increment_duty_cycle = 0, calls = []\<rparr>))
     = (0, 1)"
proof -
  let ?s = "\<lparr>Timer_0A_ms_elapsed = 0, RGB_LED_duty_cycle = 150, increment_duty_cycle = 0, calls = []\<rparr>"
  have q: "qualifying_ticks 5 0 = 1" "qualifying_ticks 10 0 = 2"
    "qualifying_ticks 15 0 = 3" "qualifying_ticks 20 0 = 4"
    by code_simp+
  show ?thesis
    using falling_from_150 [of ?s 0 5 1] falling_from_150 [of ?s 0 10 2]
      falling_from_150 [of ?s 0 15 3] falling_from_150 [of ?s 0 20 4] q
    by simp
qed

section \<open>The PWM channels of the three subsystems\<close>

text \<open>
  C3, as stated, fails. The main loop and the periodic fade task write the same
  channel: one pass of the main loop writes PWM1\_3, and so does the fade task on the
  qualifying tick that takes the counter from 4 to 5.
\<close>

theorem main_loop_and_fade_share_channel:
  "channels_written (issued main_loop_body power_on) \<inter>
   channels_written (issued Timer_0A_Periodic_Task
     \<lparr>Timer_0A_ms_elapsed = 4, RGB_LED_duty_cycle = 0, increment_duty_cycle = 1, calls = []\<rparr>)
   = {PWM1_3}"
  by (simp add: issued_main_loop_body issued_task channels_written_def List.map_filter_simps)

text \<open>
  C3, amended. The main loop writes exactly the channel PWM1\_3, the periodic fade task
  writes no channel but PWM1\_3, and the button handler writes no channel but PWM0\_0.
  So the channels of the button handler are disjoint from those of the main loop and of
  the fade task, while the main loop and the fade task share PWM1\_3.
\<close>

theorem channels_of_subsystems:
  "channels_written (issued main_loop_body s) = {PWM1_3} \<and>
   channels_written (issued Timer_0A_Periodic_Task s') \<subseteq> {PWM1_3} \<and>
   channels_written (issued (PMOD_BTN_Handler pmod_btn_status) s'') \<subseteq> {PWM0_0} \<and>
   channels_written (issued main_loop_body s) \<inter>
     channels_written (issued (PMOD_BTN_Handler pmod_btn_status) s'') = {} \<and>
   channels_written (issued Timer_0A_Periodic_Task s') \<inter>
     channels_written (issued (PMOD_BTN_Handler pmod_btn_status) s'') = {}"
  by (simp add: issued_main_loop_body issued_task issued_handler channels_written_def
      List.map_filter_simps)

section \<open>The main loop\<close>

text \<open>
  C7, as stated, fails. The main loop starts by writing the duty 3125 to PWM1\_3 and
  then blocks for 2000 ms. Five timer interrupts later, well inside that delay, the
  fade task has written 50 to the same channel: the channel does not hold 3125 over
  the first 2000 ms.
\<close>

theorem fade_overwrites_main_loop_duty:
  "commanded PWM1_3
     (calls (driver (PWM1_3_Update_Duty_Cycle 3125) (main_init power_on))) = Some 3125 \<and>
   commanded PWM1_3
     (calls ((Timer_0A_Periodic_Task ^^ 5)
        (driver (PWM1_3_Update_Duty_Cycle 3125) (main_init power_on)))) = Some 50"
proof -
  define cs where "cs = calls (driver (PWM1_3_Update_Duty_Cycle 3125) (main_init power_on))"
  have s0: "driver (PWM1_3_Update_Duty_Cycle 3125) (main_init power_on) =
    \<lparr>Timer_0A_ms_elapsed = 0, RGB_LED_duty_cycle = 0, increment_duty_cycle = 1, calls = cs\<rparr>"
    by (simp add: cs_def driver_def main_init_def power_on_def Let_def)
  have s1: "Timer_0A_Periodic_Task
      \<lparr>Timer_0A_ms_elapsed = 0, RGB_LED_duty_cycle = 0, increment_duty_cycle = 1, calls = cs\<rparr> =
      \<lparr>Timer_0A_ms_elapsed = 1, RGB_LED_duty_cycle = 0, increment_duty_cycle = 1, calls = cs\<rparr>"
    by (simp add: Timer_0A_Periodic_Task_def Let_def)
  have s2: "Timer_0A_Periodic_Task
      \<lparr>Timer_0A_ms_elapsed = 1, RGB_LED_duty_cycle = 0, increment_duty_cycle = 1, calls = cs\<rparr> =
      \<lparr>Timer_0A_ms_elapsed = 2, RGB_LED_duty_cycle = 0, increment_duty_cycle = 1, calls = cs\<rparr>"
    by (simp add: Timer_0A_Periodic_Task_def Let_def)
  have s3: "Timer_0A_Periodic_Task
      \<lparr>Timer_0A_ms_elapsed = 2, RGB_LED_duty_cycle = 0, increment_duty_cycle = 1, calls = cs\<rparr> =
      \<lparr>Timer_0A_ms_elapsed = 3, RGB_LED_duty_cycle = 0, increment_duty_cycle = 1, calls = cs\<rparr>"
    by (simp add: Timer_0A_Periodic_Task_def Let_def)
  have s4: "Timer_0A_Periodic_Task
      \<lparr>Timer_0A_ms_elapsed = 3, RGB_LED_duty_cycle = 0, increment_duty_cycle = 1, calls = cs\<rparr> =
      \<lparr>Timer_0A_ms_elapsed = 4, RGB_LED_duty_cycle = 0, increment_duty_cycle = 1, calls = cs\<rparr>"
    by (simp add: Timer_0A_Periodic_Task_def Let_def)
  have s5: "Timer_0A_Periodic_Task
      \<lparr>Timer_0A_ms_elapsed = 4, RGB_LED_duty_cycle = 0, increment_duty_cycle = 1, calls = cs\<rparr> =
      \<lparr>Timer_0A_ms_elapsed = 5, RGB_LED_duty_cycle = 50, increment_duty_cycle = 1,
       calls = cs @ [PWM1_3_Update_Duty_Cycle 50]\<rparr>"
    by (simp add: Timer_0A_Periodic_Task_def driver_def Let_def)
  have five: "(Timer_0A_Periodic_Task ^^ 5) s =
    Timer_0A_Periodic_Task (Timer_0A_Periodic_Task (Timer_0A_Periodic_Task
      (Timer_0A_Periodic_Task (Timer_0A_Periodic_Task s))))" for s
    by (simp add: eval_nat_numeral)
  have "commanded PWM1_3 cs = Some 3125"
    by (simp add: cs_def commanded_def latch_def driver_def main_init_def power_on_def Let_def)
  then show ?thesis
    unfolding five s0 s1 s2 s3 s4 s5 by (simp add: commanded_def latch_def)
qed

text \<open>
  C7, amended. Each pass of the main loop issues, in this order, the update 3125, a
  2000 ms delay, the update 18750, a 2000 ms delay, the update 59375 and a 2000 ms
  delay, all on PWM1\_3, and \<open>n\<close> passes issue this sequence \<open>n\<close> times, for
  every \<open>n\<close>. On the timeline of the main program's own calls, the duty it has last
  written at time \<open>t\<close> is 3125 in [0,2000), 18750 in [2000,4000) and 59375 in
  [4000,6000) of every period of 6000 ms.
\<close>

theorem main_loop_schedule:
  "issued main_loop_body s =
     [PWM1_3_Update_Duty_Cycle 3125, SysTick_Delay1ms 2000,
      PWM1_3_Update_Duty_Cycle 18750, SysTick_Delay1ms 2000,
      PWM1_3_Update_Duty_Cycle 59375, SysTick_Delay1ms 2000] \<and>
   issued (main_loop n) s = concat (replicate n (issued main_loop_body s)) \<and>
   (t < 6000 * n \<longrightarrow>
      duty_at PWM1_3 t None (calls (main n power_on)) =
        Some (if t mod 6000 < 2000 then 3125
              else if t mod 6000 < 4000 then 18750 else 59375))"
proof (intro conjI impI)
  show b: "issued main_loop_body s =
     [PWM1_3_Update_Duty_Cycle 3125, SysTick_Delay1ms 2000,
      PWM1_3_Update_Duty_Cycle 18750, SysTick_Delay1ms 2000,
      PWM1_3_Update_Duty_Cycle 59375, SysTick_Delay1ms 2000]"
    by (simp add: issued_def calls_main_loop_body)
  show "issued (main_loop n) s = concat (replicate n (issued main_loop_body s))"
    unfolding b by (simp add: issued_def calls_main_loop)
  assume "t < 6000 * n"
  then show "duty_at PWM1_3 t None (calls (main n power_on)) =
        Some (if t mod 6000 < 2000 then 3125
              else if t mod 6000 < 4000 then 18750 else 59375)"
    by (simp add: main_def calls_main_loop calls_main_init power_on_def latch_def
        duty_at_cycles del: replicate.simps concat.simps)
qed

theorem main_loop_schedule_witness:
  "(5::nat) < 6000 * 1 \<and> duty_at PWM1_3 5 None (calls (main 1 power_on)) = Some 3125 \<and>
   (2000::nat) < 6000 * 1 \<and> duty_at PWM1_3 2000 None (calls (main 1 power_on)) = Some 18750 \<and>
   (11999::nat) < 6000 * 2 \<and> duty_at PWM1_3 11999 None (calls (main 2 power_on)) = Some 59375"
  using main_loop_schedule [of power_on 1 5] main_loop_schedule [of power_on 1 2000]
    main_loop_schedule [of power_on 2 11999]
  by simp

end
